theory Spec2Isabelle
  imports Complex_Main
begin

section \<open>Python strings\<close>

text \<open>
  A Python \<^verbatim>\<open>str\<close> is a sequence of Unicode code points, so it is modelled as a list of
  natural numbers (one per code point), not as a byte string: \<^verbatim>\<open>strip\<close>, \<^verbatim>\<open>split\<close>,
  \<^verbatim>\<open>startswith\<close> and the regular-expression engine all work on code points. ASCII
  literals are written through \<open>ascii\<close>; Hangul literals are written as hexadecimal code
  points with a romanised comment.
\<close>

type_synonym pystr = "nat list"

definition ascii :: "string \<Rightarrow> pystr" where
  "ascii s = map of_char s"

text \<open>\<^verbatim>\<open>str.isspace\<close> for one code point; the regular expression class \<^verbatim>\<open>\s\<close> on a
  \<^verbatim>\<open>str\<close> pattern uses the same table.\<close>

definition py_isspace :: "nat \<Rightarrow> bool" where
  "py_isspace c \<longleftrightarrow>
     (0x09 \<le> c \<and> c \<le> 0x0D) \<or> (0x1C \<le> c \<and> c \<le> 0x20) \<or> c = 0x85 \<or> c = 0xA0 \<or>
     c = 0x1680 \<or> (0x2000 \<le> c \<and> c \<le> 0x200A) \<or> c = 0x2028 \<or> c = 0x2029 \<or>
     c = 0x202F \<or> c = 0x205F \<or> c = 0x3000"

text \<open>\<^verbatim>\<open>s.strip()\<close>: leading and trailing whitespace removed.\<close>

definition strip :: "pystr \<Rightarrow> pystr" where
  "strip s = rev (dropWhile py_isspace (rev (dropWhile py_isspace s)))"

text \<open>\<^verbatim>\<open>s.split(sep)\<close> for a one-character separator: always at least one piece.\<close>

fun split :: "nat \<Rightarrow> pystr \<Rightarrow> pystr list" where
  "split sep [] = [[]]"
| "split sep (c # cs) =
     (if c = sep then [] # split sep cs
      else (case split sep cs of
              [] \<Rightarrow> [[c]]
            | w # ws \<Rightarrow> (c # w) # ws))"

text \<open>\<^verbatim>\<open>sep.join(parts)\<close>.\<close>

fun join :: "pystr \<Rightarrow> pystr list \<Rightarrow> pystr" where
  "join sep [] = []"
| "join sep [p] = p"
| "join sep (p # q # ps) = p @ sep @ join sep (q # ps)"

text \<open>\<^verbatim>\<open>s.startswith(p)\<close> and \<^verbatim>\<open>p in s\<close>.\<close>

definition startswith :: "pystr \<Rightarrow> pystr \<Rightarrow> bool" where
  "startswith s p \<longleftrightarrow> take (length p) s = p"

fun contains :: "pystr \<Rightarrow> pystr \<Rightarrow> bool" where
  "contains [] p = (p = [])"
| "contains (c # cs) p = (startswith (c # cs) p \<or> contains cs p)"

text \<open>Truthiness of a \<^verbatim>\<open>str\<close> and of an \<^verbatim>\<open>Optional[str]\<close>: \<^verbatim>\<open>None\<close> and the empty
  string are both falsy.\<close>

fun truthy :: "pystr option \<Rightarrow> bool" where
  "truthy None = False"
| "truthy (Some s) = (s \<noteq> [])"

text \<open>\<^verbatim>\<open>str(n)\<close> for a non-negative integer: its decimal digits.\<close>

fun digits :: "nat \<Rightarrow> nat list" where
  "digits n = (if n < 10 then [n] else digits (n div 10) @ [n mod 10])"

declare digits.simps [simp del]

definition str_of_nat :: "nat \<Rightarrow> pystr" where
  "str_of_nat n = map (\<lambda>d. 0x30 + d) (digits n)"


section \<open>The question pattern of the document ingestor\<close>

text \<open>
  The pattern of \<^verbatim>\<open>extract_qa_pairs\<close> uses literals, the classes \<^verbatim>\<open>.\<close> and \<^verbatim>\<open>\s\<close>
  under \<^verbatim>\<open>*\<close>, the optional \<^verbatim>\<open>?\<close>, alternation, concatenation and the end anchor
  \<^verbatim>\<open>$\<close>. \<open>rx_run r s\<close> lists every remainder of \<open>s\<close> that a match of \<open>r\<close> at the
  head of \<open>s\<close> can leave, which is what a backtracking matcher explores; \<^verbatim>\<open>re.match\<close>
  succeeds exactly when some remainder exists.
\<close>

datatype cclass = AnyButNewline | Whitespace

datatype regex =
    Lit pystr
  | Many cclass
  | Opt regex
  | Alt "regex list"
  | Seq "regex list"
  | Eol

fun in_class :: "cclass \<Rightarrow> nat \<Rightarrow> bool" where
  "in_class AnyButNewline c = (c \<noteq> 0x0A)"
| "in_class Whitespace c = py_isspace c"

fun many :: "cclass \<Rightarrow> pystr \<Rightarrow> pystr list" where
  "many cl [] = [[]]"
| "many cl (c # cs) = (c # cs) # (if in_class cl c then many cl cs else [])"

text \<open>Without \<^verbatim>\<open>re.MULTILINE\<close>, \<^verbatim>\<open>$\<close> holds at the end of the string and just before
  a newline that ends the string.\<close>

fun rx_run :: "regex \<Rightarrow> pystr \<Rightarrow> pystr list" where
  "rx_run (Lit w) s = (if startswith s w then [drop (length w) s] else [])"
| "rx_run (Many cl) s = many cl s"
| "rx_run (Opt r) s = rx_run r s @ [s]"
| "rx_run (Alt rs) s = concat (map (\<lambda>r. rx_run r s) rs)"
| "rx_run (Seq []) s = [s]"
| "rx_run (Seq (r # rs)) s = concat (map (rx_run (Seq rs)) (rx_run r s))"
| "rx_run Eol s = (if s = [] \<or> s = [0x0A] then [s] else [])"

definition re_match :: "regex \<Rightarrow> pystr \<Rightarrow> bool" where
  "re_match r s \<longleftrightarrow> rx_run r s \<noteq> []"

definition opt_dot :: regex where
  "opt_dot = Opt (Lit (ascii ''.''))"

definition hamnida_or_deurimnida :: regex where
  "hamnida_or_deurimnida =
     Alt [Lit [0xD569, 0xB2C8, 0xB2E4] \<comment> \<open>hap-ni-da\<close>,
          Lit [0xB4DC, 0xB9BD, 0xB2C8, 0xB2E4] \<comment> \<open>deu-rip-ni-da\<close>]"

definition question_alternatives :: "regex list" where
  "question_alternatives =
     [Lit (ascii ''?''),
      Lit [0xFF1F] \<comment> \<open>fullwidth question mark\<close>,
      Seq [Lit [0xAD81, 0xAE08, 0xD569, 0xB2C8, 0xB2E4] \<comment> \<open>gung-geum-hap-ni-da\<close>, opt_dot],
      Seq [Lit [0xC54C, 0xB824, 0xC8FC, 0xC138, 0xC694] \<comment> \<open>al-lyeo-ju-se-yo\<close>, opt_dot],
      Seq [Lit [0xBB34, 0xC5C7, 0xC778, 0xAC00, 0xC694] \<comment> \<open>mu-eot-in-ga-yo\<close>, opt_dot],
      Seq [Lit [0xC5B4, 0xB5BB, 0xAC8C] \<comment> \<open>eo-tteo-ke\<close>, Many AnyButNewline],
      Seq [Lit [0xB300, 0xD574] \<comment> \<open>dae-hae\<close>, Many Whitespace,
           Lit [0xC124, 0xBA85] \<comment> \<open>seol-myeong\<close>, Many AnyButNewline],
      Seq [Lit [0xC694, 0xC57D] \<comment> \<open>yo-yak\<close>, Many AnyButNewline],
      Seq [Lit [0xBB38, 0xC758] \<comment> \<open>mun-ui\<close>, hamnida_or_deurimnida, opt_dot],
      Seq [Lit [0xC124, 0xBA85] \<comment> \<open>seol-myeong\<close>,
           Alt [Seq [Lit [0xD574] \<comment> \<open>hae\<close>, Many Whitespace, Lit [0xC8FC] \<comment> \<open>ju\<close>],
                Seq [Lit [0xD558, 0xC5EC] \<comment> \<open>ha-yeo\<close>, Many Whitespace, Lit [0xC8FC] \<comment> \<open>ju\<close>],
                Lit [0xBC14, 0xB78D, 0xB2C8, 0xB2E4] \<comment> \<open>ba-rap-ni-da\<close>],
           opt_dot],
      Seq [Lit [0xC54C, 0xACE0] \<comment> \<open>al-go\<close>, Many Whitespace, Lit [0xC2F6] \<comment> \<open>sip\<close>,
           Many AnyButNewline],
      Seq [Lit [0xC694, 0xCCAD] \<comment> \<open>yo-cheong\<close>, hamnida_or_deurimnida, opt_dot],
      Seq [Lit [0xC720, 0xC758, 0xC0AC, 0xD56D] \<comment> \<open>yu-ui-sa-hang\<close>, Eol],
      Seq [Lit [0xC808, 0xCC28] \<comment> \<open>jeol-cha\<close>, Eol],
      Seq [Lit [0xBC29, 0xBC95] \<comment> \<open>bang-beop\<close>, Eol],
      Seq [Lit [0xAE30, 0xC900] \<comment> \<open>gi-jun\<close>, Eol],
      Seq [Lit [0xB300, 0xC0C1] \<comment> \<open>dae-sang\<close>, Eol],
      Seq [Lit [0xC694, 0xAC74] \<comment> \<open>yo-geon\<close>, Eol],
      Seq [Lit [0xCC98, 0xB9AC] \<comment> \<open>cheo-ri\<close>, Eol],
      Seq [Lit [0xC2E0, 0xACE0] \<comment> \<open>sin-go\<close>, Eol],
      Seq [Lit [0xC218, 0xC785] \<comment> \<open>su-ip\<close>, Eol],
      Seq [Lit [0xC218, 0xCD9C] \<comment> \<open>su-chul\<close>, Eol],
      Seq [Lit [0xBC18, 0xC785] \<comment> \<open>ban-ip\<close>, Eol],
      Seq [Lit [0xAC80, 0xC0AC] \<comment> \<open>geom-sa\<close>, Eol],
      Seq [Lit [0xD5C8, 0xAC00] \<comment> \<open>heo-ga\<close>, Eol],
      Seq [Lit [0xD655, 0xC778] \<comment> \<open>hwag-in\<close>, Eol],
      Seq [Lit [0xD1B5, 0xAD00] \<comment> \<open>tong-gwan\<close>, Eol]]"

definition question_pattern :: regex where
  "question_pattern = Seq [Many AnyButNewline, Alt question_alternatives, Eol]"

definition is_question :: "pystr \<Rightarrow> bool" where
  "is_question line \<longleftrightarrow> re_match question_pattern line"


section \<open>The line scan of \<^verbatim>\<open>extract_qa_pairs\<close>\<close>

text \<open>The dictionary \<^verbatim>\<open>{"question": ..., "answer": ...}\<close>.\<close>

record qa_pair =
  qa_question :: pystr
  qa_answer :: pystr

definition make_pair :: "pystr \<Rightarrow> pystr list \<Rightarrow> qa_pair" where
  "make_pair q a = \<lparr>qa_question = q, qa_answer = strip (join (ascii [CHR 0x0A]) a)\<rparr>"

text \<open>The loop variables: \<^verbatim>\<open>current_q\<close>, \<^verbatim>\<open>current_a\<close> and the result list
  \<^verbatim>\<open>qa_pairs\<close>.\<close>

record scan_state =
  current_q :: "pystr option"
  current_a :: "pystr list"
  qa_pairs :: "qa_pair list"

text \<open>The flush that appears both inside the loop and after it.\<close>

definition flush :: "scan_state \<Rightarrow> qa_pair list" where
  "flush st =
     (if truthy (current_q st) \<and> current_a st \<noteq> []
      then qa_pairs st @ [make_pair (the (current_q st)) (current_a st)]
      else qa_pairs st)"

definition scan_step :: "scan_state \<Rightarrow> pystr \<Rightarrow> scan_state" where
  "scan_step st raw =
     (let line = strip raw in
      if is_question line
      then \<lparr>current_q = Some line, current_a = [], qa_pairs = flush st\<rparr>
      else if truthy (current_q st)
           then st\<lparr>current_a := current_a st @ [line]\<rparr>
           else st)"

text \<open>One page: the loop over the lines of the merged text, then the final flush.
  \<open>acc\<close> is \<^verbatim>\<open>qa_pairs\<close> as the earlier pages left it.\<close>

definition scan_lines :: "qa_pair list \<Rightarrow> pystr list \<Rightarrow> qa_pair list" where
  "scan_lines acc ls =
     flush (foldl scan_step \<lparr>current_q = None, current_a = [], qa_pairs = acc\<rparr> ls)"

text \<open>A page as \<^verbatim>\<open>pdfplumber\<close> hands it over: the extracted text (or \<^verbatim>\<open>None\<close>) and
  the tables, each a list of rows of optional cells.\<close>

record page =
  page_text :: "pystr option"
  page_tables :: "pystr option list list list"

definition cell_text :: "pystr option \<Rightarrow> pystr" where
  "cell_text cell = (if truthy cell then the cell else [])"

definition table_text :: "pystr option list list \<Rightarrow> pystr" where
  "table_text table =
     join (ascii [CHR 0x0A]) (map (\<lambda>row. join (ascii '' | '') (map cell_text row)) table)"

definition table_marker :: pystr where
  "table_marker = [0x0A, 0x0A, 0x5B, 0xD45C, 0x20, 0xB370, 0xC774, 0xD130, 0x5D, 0x0A]"
  \<comment> \<open>two newlines, then "[pyo de-i-teo]" (table data), then a newline\<close>

definition merged_text :: "page \<Rightarrow> pystr" where
  "merged_text p =
     (let text = (if truthy (page_text p) then the (page_text p) else []);
          table_texts = map table_text (page_tables p);
          table_text_block =
            (if table_texts \<noteq> []
             then table_marker @ join (ascii [CHR 0x0A, CHR 0x0A]) table_texts
             else [])
      in text @ table_text_block)"

definition scan_page :: "qa_pair list \<Rightarrow> page \<Rightarrow> qa_pair list" where
  "scan_page acc p = scan_lines acc (split 0x0A (merged_text p))"

definition extract_qa_pairs :: "page list \<Rightarrow> qa_pair list" where
  "extract_qa_pairs pages = foldl scan_page [] pages"

text \<open>The events of the scan, with the answer buffer as it stood at each flush: the
  pairs the scan appends while it reads \<open>ls\<close> from state \<open>st\<close>, the final flush
  included. This is an instrumented reading of the same loop, used to speak about the
  buffer behind each emitted pair.\<close>

definition flush_events :: "scan_state \<Rightarrow> (pystr \<times> pystr list) list" where
  "flush_events st =
     (if truthy (current_q st) \<and> current_a st \<noteq> []
      then [(the (current_q st), current_a st)] else [])"

fun scan_events :: "scan_state \<Rightarrow> pystr list \<Rightarrow> (pystr \<times> pystr list) list" where
  "scan_events st [] = flush_events st"
| "scan_events st (raw # ls) =
     (if is_question (strip raw) then flush_events st else []) @
     scan_events (scan_step st raw) ls"


section \<open>Exceptions and the external collaborators\<close>

text \<open>
  A Python exception is its class name and its message (\<^verbatim>\<open>str(e)\<close>). The code of this
  repository catches with \<^verbatim>\<open>except Exception\<close> and only ever inspects the message.
\<close>

record pyexn =
  exn_class :: pystr
  exn_msg :: pystr

type_synonym bytes = "nat list"

text \<open>A Redis hash as \<^verbatim>\<open>hset\<close> writes it (fields \<^verbatim>\<open>embedding\<close>, \<^verbatim>\<open>text\<close> and
  \<^verbatim>\<open>source\<close>), and the keyspace as a map from keys to hashes.\<close>

record entry =
  embedding :: bytes
  text_field :: pystr
  source_field :: pystr

type_synonym redis = "pystr \<rightharpoonup> entry"

text \<open>A document of a search result with the three returned fields; the score is the
  cosine distance. Floating-point numbers are modelled as reals: the code only
  subtracts the score from one and compares with the threshold.\<close>

record doc =
  doc_text :: pystr
  doc_source :: pystr
  score :: real

text \<open>A hit of the Elasticsearch query: \<^verbatim>\<open>hit["_source"]["source"]\<close> and
  \<^verbatim>\<open>hit["_source"]["content"]\<close>.\<close>

record hit =
  hit_source :: pystr
  hit_content :: pystr

text \<open>
  What the code calls but does not define: Python's \<^verbatim>\<open>hash\<close> and \<^verbatim>\<open>str.lower\<close>, the
  sentence-embedding model followed by \<^verbatim>\<open>tobytes\<close>, the vector search of the Redis
  index over the current keyspace, whether Redis accepts writes, the body of the
  \<^verbatim>\<open>try\<close> block of \<^verbatim>\<open>_retrieve_documents\<close> up to the hit list (query embedding and
  Elasticsearch search), and the LangChain pipeline \<^verbatim>\<open>rag_chain.invoke\<close>. Each may
  raise. Output printed to the console is not modelled.
\<close>

record env =
  py_hash :: "pystr \<Rightarrow> int"
  str_lower :: "pystr \<Rightarrow> pystr"
  encode :: "pystr \<Rightarrow> pyexn + bytes"
  ft_search :: "redis \<Rightarrow> bytes \<Rightarrow> nat \<Rightarrow> pyexn + doc list"
  redis_write_fault :: "pyexn option"
  es_search :: "pystr \<Rightarrow> nat \<Rightarrow> pyexn + hit list"
  rag_chain :: "pystr \<Rightarrow> pystr \<Rightarrow> pyexn + pystr"

definition redis_hset :: "env \<Rightarrow> redis \<Rightarrow> pystr \<Rightarrow> entry \<Rightarrow> pyexn + redis" where
  "redis_hset ev db key e =
     (case redis_write_fault ev of Some x \<Rightarrow> Inl x | None \<Rightarrow> Inr (db(key \<mapsto> e)))"

definition redis_delete :: "env \<Rightarrow> redis \<Rightarrow> pystr \<Rightarrow> pyexn + redis" where
  "redis_delete ev db key =
     (case redis_write_fault ev of Some x \<Rightarrow> Inl x | None \<Rightarrow> Inr (db(key := None)))"


section \<open>\<^verbatim>\<open>collections.deque\<close> with \<^verbatim>\<open>maxlen\<close>\<close>

text \<open>
  \<^verbatim>\<open>deque(maxlen=n)\<close> for an integer \<open>n \<ge> 0\<close> (a negative \<open>n\<close> is rejected by the
  constructor). \<^verbatim>\<open>append\<close> adds on the right and, when the size then exceeds
  \<^verbatim>\<open>maxlen\<close>, discards one item on the left before it returns. \<^verbatim>\<open>popleft\<close> raises
  \<^verbatim>\<open>IndexError\<close> on an empty deque.
\<close>

record 'a deque =
  items :: "'a list"
  maxlen :: nat

definition deque_new :: "nat \<Rightarrow> 'a deque" where
  "deque_new n = \<lparr>items = [], maxlen = n\<rparr>"

definition len :: "'a deque \<Rightarrow> nat" where
  "len d = length (items d)"

definition deque_append :: "'a deque \<Rightarrow> 'a \<Rightarrow> 'a deque" where
  "deque_append d x =
     (let ys = items d @ [x]
      in d\<lparr>items := (if maxlen d < length ys then tl ys else ys)\<rparr>)"

definition index_error :: pyexn where
  "index_error = \<lparr>exn_class = ascii ''IndexError'', exn_msg = ascii ''pop from an empty deque''\<rparr>"

definition deque_popleft :: "'a deque \<Rightarrow> pyexn + ('a \<times> 'a deque)" where
  "deque_popleft d =
     (case items d of
        [] \<Rightarrow> Inl index_error
      | x # xs \<Rightarrow> Inr (x, d\<lparr>items := xs\<rparr>))"


section \<open>\<^verbatim>\<open>CAGCache\<close>\<close>

text \<open>The mutable state of a \<^verbatim>\<open>CAGCache\<close>: the Redis keyspace behind \<^verbatim>\<open>self.r\<close> and
  \<^verbatim>\<open>self.user_cache\<close>.\<close>

record cag_cache =
  self_r :: redis
  user_cache :: "pystr deque"

text \<open>\<^verbatim>\<open>__init__\<close>: \<open>db\<close> is the keyspace as the index initialisation leaves it;
  \<^verbatim>\<open>dynamic_cache_size\<close> defaults to 5.\<close>

definition CAGCache_init :: "redis \<Rightarrow> nat option \<Rightarrow> cag_cache" where
  "CAGCache_init db dynamic_cache_size =
     \<lparr>self_r = db,
      user_cache = deque_new (case dynamic_cache_size of None \<Rightarrow> 5 | Some n \<Rightarrow> n)\<rparr>"

text \<open>\<^verbatim>\<open>check_cache(user_query, k=3, threshold=0.7)\<close>; an omitted argument is \<open>None\<close>.
  The embedding is computed before the \<^verbatim>\<open>try\<close>, so its exception propagates; an
  exception of the search is caught.\<close>

definition check_cache ::
  "env \<Rightarrow> cag_cache \<Rightarrow> pystr \<Rightarrow> nat option \<Rightarrow> real option \<Rightarrow> pyexn + pystr option" where
  "check_cache ev c user_query k_arg threshold_arg =
     (let k = (case k_arg of None \<Rightarrow> 3 | Some k \<Rightarrow> k);
          threshold = (case threshold_arg of None \<Rightarrow> 0.7 | Some t \<Rightarrow> t)
      in case encode ev user_query of
           Inl x \<Rightarrow> Inl x
         | Inr q_emb \<Rightarrow>
             (case ft_search ev (self_r c) q_emb k of
                Inl e \<Rightarrow> Inr None
              | Inr docs \<Rightarrow>
                  (case docs of
                     [] \<Rightarrow> Inr None
                   | d # _ \<Rightarrow>
                       (let sim = 1 - score d
                        in if sim \<ge> threshold then Inr (Some (doc_text d)) else Inr None))))"

text \<open>The key of a dynamic entry:
  \<^verbatim>\<open>f"cache:dyn:{abs(hash(query)) % (10**8)}"\<close>.\<close>

definition dyn_key :: "env \<Rightarrow> pystr \<Rightarrow> pystr" where
  "dyn_key ev query = ascii ''cache:dyn:'' @ str_of_nat (nat \<bar>py_hash ev query\<bar> mod 10 ^ 8)"

text \<open>\<^verbatim>\<open>save_dynamic_cache\<close> returns nothing; the model returns the exception it raised,
  if any, and the state it leaves.\<close>

definition save_dynamic_cache ::
  "env \<Rightarrow> cag_cache \<Rightarrow> pystr \<Rightarrow> pystr \<Rightarrow> pyexn option \<times> cag_cache" where
  "save_dynamic_cache ev c query answer =
     (let key = dyn_key ev query
      in case encode ev query of
           Inl x \<Rightarrow> (Some x, c)
         | Inr emb \<Rightarrow>
             (case redis_hset ev (self_r c) key
                     \<lparr>embedding = emb, text_field = answer,
                      source_field = ascii ''dynamic_cache''\<rparr> of
                Inl x \<Rightarrow> (Some x, c)
              | Inr db1 \<Rightarrow>
                  (let c1 = c\<lparr>self_r := db1, user_cache := deque_append (user_cache c) key\<rparr>
                   in if len (user_cache c1) > maxlen (user_cache c1)
                      then (case deque_popleft (user_cache c1) of
                              Inl x \<Rightarrow> (Some x, c1)
                            | Inr (oldest, d2) \<Rightarrow>
                                (let c2 = c1\<lparr>user_cache := d2\<rparr>
                                 in case redis_delete ev (self_r c2) oldest of
                                      Inl x \<Rightarrow> (Some x, c2)
                                    | Inr db2 \<Rightarrow> (None, c2\<lparr>self_r := db2\<rparr>)))
                      else (None, c1))))"

text \<open>A sequence of calls on one cache object, one after the other; a call that raises
  leaves the object as it was at the raise and the next call goes on from there.\<close>

fun run_saves :: "env \<Rightarrow> cag_cache \<Rightarrow> (pystr \<times> pystr) list \<Rightarrow> cag_cache" where
  "run_saves ev c [] = c"
| "run_saves ev c ((query, answer) # rest) =
     run_saves ev (snd (save_dynamic_cache ev c query answer)) rest"

text \<open>The capacity invariant of the window.\<close>

definition window_ok :: "cag_cache \<Rightarrow> bool" where
  "window_ok c \<longleftrightarrow> len (user_cache c) \<le> maxlen (user_cache c)"


section \<open>\<^verbatim>\<open>CAGRAGChain\<close>\<close>

record chain =
  cag :: cag_cache
  cache_threshold :: real

text \<open>\<^verbatim>\<open>__init__\<close>: the cache is built with its default \<^verbatim>\<open>dynamic_cache_size\<close>;
  \<^verbatim>\<open>cache_threshold\<close> defaults to 0.85.\<close>

definition CAGRAGChain_init :: "redis \<Rightarrow> real option \<Rightarrow> chain" where
  "CAGRAGChain_init db cache_threshold_arg =
     \<lparr>cag = CAGCache_init db None,
      cache_threshold = (case cache_threshold_arg of None \<Rightarrow> 0.85 | Some t \<Rightarrow> t)\<rparr>"

text \<open>The context string built from the hits, numbered from one.\<close>

fun format_hits :: "nat \<Rightarrow> hit list \<Rightarrow> pystr" where
  "format_hits i [] = []"
| "format_hits i (h # hs) =
     ([0x0A, 0x2D, 0x2D, 0x2D, 0x20, 0xBB38, 0xC11C, 0x20] \<comment> \<open>newline, three dashes, mun-seo\<close>
      @ str_of_nat (i + 1)
      @ [0x20, 0x28, 0xCD9C, 0xCC98, 0x3A, 0x20] \<comment> \<open>(chul-cheo:\<close>
      @ hit_source h
      @ ascii '') ---'' @ [0x0A])
     @ hit_content h
     @ ([0x0A] @ replicate 35 0x2D @ [0x0A])
     @ format_hits (i + 1) hs"

text \<open>\<^verbatim>\<open>_retrieve_documents(query, top_k=3)\<close>: any exception inside the \<^verbatim>\<open>try\<close> gives
  the empty string.\<close>

definition retrieve_documents :: "env \<Rightarrow> pystr \<Rightarrow> nat option \<Rightarrow> pystr" where
  "retrieve_documents ev query top_k_arg =
     (let top_k = (case top_k_arg of None \<Rightarrow> 3 | Some k \<Rightarrow> k)
      in case es_search ev query top_k of
           Inl e \<Rightarrow> []
         | Inr hits \<Rightarrow> (if hits = [] then [] else format_hits 0 hits))"

definition cross_mark :: pystr where
  "cross_mark = [0x274C]"

definition connection_error_answer :: pystr where
  "connection_error_answer =
     [0x274C, 0x20, 0x4F, 0x6C, 0x6C, 0x61, 0x6D, 0x61, 0x20, 0xC11C, 0xBC84, 0xC5D0, 0x20,
      0xC5F0, 0xACB0, 0xD560, 0x20, 0xC218, 0x20, 0xC5C6, 0xC2B5, 0xB2C8, 0xB2E4, 0x2E,
      0x20, 0xC11C, 0xBC84, 0xAC00, 0x20, 0xC2E4, 0xD589, 0x20, 0xC911, 0xC778, 0xC9C0,
      0x20, 0xD655, 0xC778, 0xD558, 0xC138, 0xC694, 0x2E]"

definition timeout_error_answer :: pystr where
  "timeout_error_answer =
     [0x274C, 0x20, 0xC751, 0xB2F5, 0x20, 0xC2DC, 0xAC04, 0xC744, 0x20, 0xCD08, 0xACFC,
      0xD588, 0xC2B5, 0xB2C8, 0xB2E4, 0x2E, 0x20, 0xC7A0, 0xC2DC, 0x20, 0xD6C4, 0x20,
      0xB2E4, 0xC2DC, 0x20, 0xC2DC, 0xB3C4, 0xD574, 0xC8FC, 0xC138, 0xC694, 0x2E]"

definition other_error_prefix :: pystr where
  "other_error_prefix =
     [0x274C, 0x20, 0xB2F5, 0xBCC0, 0x20, 0xC0DD, 0xC131, 0x20, 0xC911, 0x20, 0xC624,
      0xB958, 0x3A, 0x20]"

text \<open>\<^verbatim>\<open>_generate_answer\<close>: the three branches of the handler choose by the text of the
  message only.\<close>

definition generate_answer :: "env \<Rightarrow> pystr \<Rightarrow> pystr \<Rightarrow> pystr" where
  "generate_answer ev query context =
     (case rag_chain ev context query of
        Inr answer \<Rightarrow> strip answer
      | Inl e \<Rightarrow>
          (let error_msg = exn_msg e
           in if contains error_msg (ascii ''Connection'') then connection_error_answer
              else if contains (str_lower ev error_msg) (ascii ''timeout'')
                   then timeout_error_answer
                   else other_error_prefix @ error_msg))"

record result =
  res_answer :: pystr
  cache_hit :: bool
  res_source :: pystr

definition empty_question_answer :: pystr where
  "empty_question_answer =
     [0xC9C8, 0xBB38, 0xC744, 0x20, 0xC785, 0xB825, 0xD574, 0xC8FC, 0xC138, 0xC694, 0x2E]"

definition no_documents_answer :: pystr where
  "no_documents_answer =
     [0xC8C4, 0xC1A1, 0xD569, 0xB2C8, 0xB2E4, 0x2E, 0x20, 0xC9C8, 0xBB38, 0xC5D0, 0x20,
      0xB300, 0xD55C, 0x20, 0xAD00, 0xB828, 0x20, 0xBB38, 0xC11C, 0xB97C, 0x20, 0xAC80,
      0xC0C9, 0xD560, 0x20, 0xC218, 0x20, 0xC5C6, 0xC2B5, 0xB2C8, 0xB2E4, 0x2E]"

text \<open>Steps 2 to 4 of \<^verbatim>\<open>invoke\<close>, the part that runs after a cache miss: retrieval,
  generation and the write-back. The pair is the returned dictionary (or the
  exception that left \<^verbatim>\<open>invoke\<close>) and the chain object afterwards.\<close>

definition rag_pipeline :: "env \<Rightarrow> chain \<Rightarrow> pystr \<Rightarrow> (pyexn + result) \<times> chain" where
  "rag_pipeline ev ch question =
     (let context = retrieve_documents ev question None
      in if context = []
         then (Inr \<lparr>res_answer = no_documents_answer, cache_hit = False,
                    res_source = ascii ''NONE''\<rparr>, ch)
         else (let answer = generate_answer ev question context
               in if \<not> startswith answer cross_mark
                  then (case save_dynamic_cache ev (cag ch) question answer of
                          (Some x, c') \<Rightarrow> (Inl x, ch\<lparr>cag := c'\<rparr>)
                        | (None, c') \<Rightarrow>
                            (Inr \<lparr>res_answer = answer, cache_hit = False,
                                  res_source = ascii ''RAG''\<rparr>, ch\<lparr>cag := c'\<rparr>))
                  else (Inr \<lparr>res_answer = answer, cache_hit = False,
                             res_source = ascii ''RAG''\<rparr>, ch)))"

text \<open>\<^verbatim>\<open>invoke(inputs)\<close>: \<^verbatim>\<open>inputs\<close> is a dictionary from strings to strings.\<close>

definition invoke :: "env \<Rightarrow> chain \<Rightarrow> (pystr \<rightharpoonup> pystr) \<Rightarrow> (pyexn + result) \<times> chain" where
  "invoke ev ch inputs =
     (let question = (case inputs (ascii ''question'') of None \<Rightarrow> [] | Some q \<Rightarrow> q)
      in if question = []
         then (Inr \<lparr>res_answer = empty_question_answer, cache_hit = False,
                    res_source = ascii ''NONE''\<rparr>, ch)
         else (case check_cache ev (cag ch) question None (Some (cache_threshold ch)) of
                 Inl x \<Rightarrow> (Inl x, ch)
               | Inr cached_answer \<Rightarrow>
                   (if truthy cached_answer
                    then (Inr \<lparr>res_answer = the cached_answer, cache_hit = True,
                               res_source = ascii ''CAG''\<rparr>, ch)
                    else rag_pipeline ev ch question)))"


section \<open>Concrete inputs\<close>

text \<open>The text of the ingestion example: five lines, the first and the fourth ending
  in a question mark.\<close>

definition example_text :: pystr where
  "example_text =
     [0xC9C8, 0xBB38, 0xC785, 0xB2C8, 0xAE4C, 0x3F, 0x0A, 0xB2F5, 0xBCC0, 0x31, 0x0A,
      0xB2F5, 0xBCC0, 0x32, 0x0A, 0xB610, 0x20, 0xC9C8, 0xBB38, 0xC778, 0xAC00, 0xC694, 0x3F,
      0x0A, 0xB2F5, 0xBCC0, 0x33]"

text \<open>An environment for concrete runs: the hash of a string is the sum of its code
  points, lower-casing acts on ASCII letters, the embedding of a string is the string
  itself, Redis accepts writes, and the search, the retrieval and the generation
  return what is passed in.\<close>

definition example_env ::
  "(pyexn + doc list) \<Rightarrow> (pyexn + hit list) \<Rightarrow> (pyexn + pystr) \<Rightarrow> env" where
  "example_env found hits generated =
     \<lparr>py_hash = (\<lambda>q. int (sum_list q)),
      str_lower = map (\<lambda>c. if 0x41 \<le> c \<and> c \<le> 0x5A then c + 0x20 else c),
      encode = (\<lambda>q. Inr q),
      ft_search = (\<lambda>db v k. found),
      redis_write_fault = None,
      es_search = (\<lambda>q k. hits),
      rag_chain = (\<lambda>context question. generated)\<rparr>"

definition example_doc :: "pystr \<Rightarrow> real \<Rightarrow> doc" where
  "example_doc t distance =
     \<lparr>doc_text = t, doc_source = ascii ''pdf_pre_cache'', score = distance\<rparr>"

definition example_hit :: hit where
  "example_hit = \<lparr>hit_source = ascii ''guide.pdf'', hit_content = ascii ''duty rates''\<rparr>"

definition example_inputs :: "pystr \<Rightarrow> (pystr \<rightharpoonup> pystr)" where
  "example_inputs q = [ascii ''question'' \<mapsto> q]"

definition timeout_exn :: "pystr \<Rightarrow> pyexn" where
  "timeout_exn msg = \<lparr>exn_class = ascii ''TimeoutError'', exn_msg = msg\<rparr>"


section \<open>The document ingestor\<close>

lemmas question_eval =
  is_question_def re_match_def question_pattern_def question_alternatives_def opt_dot_def
  hamnida_or_deurimnida_def startswith_def ascii_def

lemma example_lines:
  "split 0x0A example_text =
     [[0xC9C8, 0xBB38, 0xC785, 0xB2C8, 0xAE4C, 0x3F], [0xB2F5, 0xBCC0, 0x31],
      [0xB2F5, 0xBCC0, 0x32], [0xB610, 0x20, 0xC9C8, 0xBB38, 0xC778, 0xAC00, 0xC694, 0x3F],
      [0xB2F5, 0xBCC0, 0x33]]"
  by (simp add: example_text_def)

lemma strip_example [simp]:
  "strip [0xC9C8, 0xBB38, 0xC785, 0xB2C8, 0xAE4C, 0x3F] =
     [0xC9C8, 0xBB38, 0xC785, 0xB2C8, 0xAE4C, 0x3F]"
  "strip [0xB2F5, 0xBCC0, 0x31] = [0xB2F5, 0xBCC0, 0x31]"
  "strip [0xB2F5, 0xBCC0, 0x32] = [0xB2F5, 0xBCC0, 0x32]"
  "strip [0xB610, 0x20, 0xC9C8, 0xBB38, 0xC778, 0xAC00, 0xC694, 0x3F] =
     [0xB610, 0x20, 0xC9C8, 0xBB38, 0xC778, 0xAC00, 0xC694, 0x3F]"
  "strip [0xB2F5, 0xBCC0, 0x33] = [0xB2F5, 0xBCC0, 0x33]"
  "strip [0xB2F5, 0xBCC0, 0x31, 0x0A, 0xB2F5, 0xBCC0, 0x32] =
     [0xB2F5, 0xBCC0, 0x31, 0x0A, 0xB2F5, 0xBCC0, 0x32]"
  by (simp_all add: strip_def py_isspace_def)

lemma is_question_example [simp]:
  "is_question [0xC9C8, 0xBB38, 0xC785, 0xB2C8, 0xAE4C, 0x3F]"
  "\<not> is_question [0xB2F5, 0xBCC0, 0x31]"
  "\<not> is_question [0xB2F5, 0xBCC0, 0x32]"
  "is_question [0xB610, 0x20, 0xC9C8, 0xBB38, 0xC778, 0xAC00, 0xC694, 0x3F]"
  "\<not> is_question [0xB2F5, 0xBCC0, 0x33]"
  by (simp_all add: question_eval)

text \<open>
  C8. The line scan applied to a page whose text is the five-line example (no tables)
  yields exactly two pairs: the first question with its two answer lines joined by a
  newline, and the second question with its single answer line, flushed at the end of
  the input.
\<close>

theorem ingest_example:
  "extract_qa_pairs [\<lparr>page_text = Some example_text, page_tables = []\<rparr>] =
     [\<lparr>qa_question = [0xC9C8, 0xBB38, 0xC785, 0xB2C8, 0xAE4C, 0x3F],
       qa_answer = [0xB2F5, 0xBCC0, 0x31, 0x0A, 0xB2F5, 0xBCC0, 0x32]\<rparr>,
      \<lparr>qa_question = [0xB610, 0x20, 0xC9C8, 0xBB38, 0xC778, 0xAC00, 0xC694, 0x3F],
       qa_answer = [0xB2F5, 0xBCC0, 0x33]\<rparr>]"
proof -
  have "merged_text \<lparr>page_text = Some example_text, page_tables = []\<rparr> = example_text"
    by (simp add: merged_text_def example_text_def)
  then show ?thesis
    by (simp add: extract_qa_pairs_def scan_page_def example_lines scan_lines_def scan_step_def
        flush_def make_pair_def ascii_def)
qed


lemma scan_step_question_twice:
  assumes "is_question (strip q1)" "is_question (strip q2)"
  shows "scan_step (scan_step st q1) q2 = scan_step st q2"
  using assms by (simp add: scan_step_def flush_def)

lemma scan_step_before_question:
  "current_q st = None \<Longrightarrow> \<not> is_question (strip raw) \<Longrightarrow> scan_step st raw = st"
  by (simp add: scan_step_def)

lemma foldl_scan_step_before_question:
  "current_q st = None \<Longrightarrow> \<forall>raw \<in> set pre. \<not> is_question (strip raw) \<Longrightarrow>
   foldl scan_step st pre = st"
  by (induction pre) (simp_all add: scan_step_before_question)

lemma flush_events_flush:
  "flush st = qa_pairs st @ map (\<lambda>(q, a). make_pair q a) (flush_events st)"
  by (simp add: flush_def flush_events_def)

lemma qa_pairs_scan_step:
  "qa_pairs (scan_step st raw) =
     qa_pairs st @
     map (\<lambda>(q, a). make_pair q a) (if is_question (strip raw) then flush_events st else [])"
  by (simp add: scan_step_def flush_events_flush Let_def)

lemma scan_events_flush:
  "flush (foldl scan_step st ls) =
     qa_pairs st @ map (\<lambda>(q, a). make_pair q a) (scan_events st ls)"
proof (induction ls arbitrary: st)
  case Nil
  show ?case by (simp add: flush_events_flush)
next
  case (Cons raw ls)
  show ?case
    by (simp add: Cons.IH qa_pairs_scan_step)
qed

lemma flush_events_nonempty:
  "(q, a) \<in> set (flush_events st) \<Longrightarrow> q \<noteq> [] \<and> a \<noteq> []"
  by (cases "current_q st") (auto simp: flush_events_def split: if_splits)

lemma scan_events_nonempty:
  "(q, a) \<in> set (scan_events st ls) \<Longrightarrow> q \<noteq> [] \<and> a \<noteq> []"
proof (induction ls arbitrary: st)
  case Nil
  then show ?case by (simp add: flush_events_nonempty)
next
  case (Cons raw ls)
  then show ?case
    by (auto split: if_splits dest: flush_events_nonempty)
qed

text \<open>
  C9. For every input of the line scan: (1) a question line directly followed by
  another question line leaves no trace, the scan gives what it gives with the first
  of the two lines removed; (2) the pairs of the result are exactly the flush events,
  and at every flush event the question and the answer buffer are non-empty, so no
  pair is emitted with an empty buffer; (3) lines before the first question line are
  discarded.
\<close>

theorem question_without_answer_is_dropped:
  "(is_question (strip q1) \<and> is_question (strip q2) \<longrightarrow>
      scan_lines acc (pre @ q1 # q2 # post) = scan_lines acc (pre @ q2 # post)) \<and>
   scan_lines acc ls =
      acc @ map (\<lambda>(q, a). make_pair q a)
              (scan_events \<lparr>current_q = None, current_a = [], qa_pairs = acc\<rparr> ls) \<and>
   (\<forall>(q, a) \<in> set (scan_events \<lparr>current_q = None, current_a = [], qa_pairs = acc\<rparr> ls).
      q \<noteq> [] \<and> a \<noteq> []) \<and>
   ((\<forall>raw \<in> set pre. \<not> is_question (strip raw)) \<longrightarrow>
      scan_lines acc (pre @ rest) = scan_lines acc rest)"
proof (intro conjI impI)
  assume "is_question (strip q1) \<and> is_question (strip q2)"
  then show "scan_lines acc (pre @ q1 # q2 # post) = scan_lines acc (pre @ q2 # post)"
    by (simp add: scan_lines_def scan_step_question_twice)
next
  show "scan_lines acc ls =
      acc @ map (\<lambda>(q, a). make_pair q a)
              (scan_events \<lparr>current_q = None, current_a = [], qa_pairs = acc\<rparr> ls)"
    by (simp add: scan_lines_def scan_events_flush)
next
  show "\<forall>(q, a) \<in> set (scan_events \<lparr>current_q = None, current_a = [], qa_pairs = acc\<rparr> ls).
      q \<noteq> [] \<and> a \<noteq> []"
    using scan_events_nonempty by blast
next
  assume "\<forall>raw \<in> set pre. \<not> is_question (strip raw)"
  then show "scan_lines acc (pre @ rest) = scan_lines acc rest"
    by (simp add: scan_lines_def foldl_scan_step_before_question)
qed

lemma strip_ascii_example [simp]:
  "strip (ascii ''intro'') = ascii ''intro''"
  "strip (ascii ''a?'') = ascii ''a?''"
  "strip (ascii ''b?'') = ascii ''b?''"
  "strip (ascii ''c'') = ascii ''c''"
  by (simp_all add: strip_def py_isspace_def ascii_def)

lemma is_question_ascii_example [simp]:
  "\<not> is_question (ascii ''intro'')"
  "is_question (ascii ''a?'')"
  "is_question (ascii ''b?'')"
  "\<not> is_question (ascii ''c'')"
  by (simp_all add: is_question_def re_match_def question_pattern_def question_alternatives_def
      opt_dot_def hamnida_or_deurimnida_def startswith_def ascii_def)

lemma scan_events_ascii_example:
  "scan_events \<lparr>current_q = None, current_a = [], qa_pairs = []\<rparr>
     [ascii ''intro'', ascii ''a?'', ascii ''b?'', ascii ''c''] = [(ascii ''b?'', [ascii ''c''])]"
  by (simp add: scan_step_def flush_def flush_events_def) (simp add: ascii_def)

text \<open>The three parts at the lines \<^verbatim>\<open>intro\<close>, \<^verbatim>\<open>a?\<close>, \<^verbatim>\<open>b?\<close>, \<^verbatim>\<open>c\<close>: only the pair
  of \<^verbatim>\<open>b?\<close> and \<^verbatim>\<open>c\<close> is emitted.\<close>

theorem question_without_answer_is_dropped_witness:
  "is_question (strip (ascii ''a?'')) \<and> is_question (strip (ascii ''b?'')) \<and>
   scan_lines [] ([ascii ''intro''] @ ascii ''a?'' # ascii ''b?'' # [ascii ''c'']) =
     scan_lines [] ([ascii ''intro''] @ ascii ''b?'' # [ascii ''c'']) \<and>
   (ascii ''b?'', [ascii ''c'']) \<in>
     set (scan_events \<lparr>current_q = None, current_a = [], qa_pairs = []\<rparr>
            [ascii ''intro'', ascii ''a?'', ascii ''b?'', ascii ''c'']) \<and>
   scan_lines [] [ascii ''intro'', ascii ''a?'', ascii ''b?'', ascii ''c''] =
     [make_pair (ascii ''b?'') [ascii ''c'']] \<and>
   \<not> is_question (strip (ascii ''intro'')) \<and>
   scan_lines [] ([ascii ''intro''] @ [ascii ''b?'', ascii ''c'']) =
     scan_lines [] [ascii ''b?'', ascii ''c'']"
proof -
  have q: "is_question (strip (ascii ''a?''))" "is_question (strip (ascii ''b?''))"
    by simp_all
  have before: "\<forall>raw \<in> set [ascii ''intro'']. \<not> is_question (strip raw)"
    by simp
  note inst = question_without_answer_is_dropped [of "ascii ''a?''" "ascii ''b?''" "[]" "[ascii ''intro'']" "[ascii ''c'']"
      "[ascii ''intro'', ascii ''a?'', ascii ''b?'', ascii ''c'']" "[ascii ''b?'', ascii ''c'']"]
  from inst q have dropped:
    "scan_lines [] ([ascii ''intro''] @ ascii ''a?'' # ascii ''b?'' # [ascii ''c'']) =
     scan_lines [] ([ascii ''intro''] @ ascii ''b?'' # [ascii ''c''])"
    by blast
  from inst have emitted:
    "scan_lines [] [ascii ''intro'', ascii ''a?'', ascii ''b?'', ascii ''c''] =
     [] @ map (\<lambda>(q, a). make_pair q a)
            (scan_events \<lparr>current_q = None, current_a = [], qa_pairs = []\<rparr>
               [ascii ''intro'', ascii ''a?'', ascii ''b?'', ascii ''c''])"
    by blast
  from inst before have discarded:
    "scan_lines [] ([ascii ''intro''] @ [ascii ''b?'', ascii ''c'']) =
     scan_lines [] [ascii ''b?'', ascii ''c'']"
    by blast
  have member: "(ascii ''b?'', [ascii ''c'']) \<in>
     set (scan_events \<lparr>current_q = None, current_a = [], qa_pairs = []\<rparr>
            [ascii ''intro'', ascii ''a?'', ascii ''b?'', ascii ''c''])"
    unfolding scan_events_ascii_example by simp
  have pairs: "scan_lines [] [ascii ''intro'', ascii ''a?'', ascii ''b?'', ascii ''c''] =
     [make_pair (ascii ''b?'') [ascii ''c'']]"
    using emitted unfolding scan_events_ascii_example by simp
  have intro: "\<not> is_question (strip (ascii ''intro''))"
    by simp
  from q dropped member pairs intro discarded show ?thesis
    by (intro conjI)
qed


section \<open>The eviction window\<close>

lemma maxlen_deque_append [simp]: "maxlen (deque_append d x) = maxlen d"
  by (simp add: deque_append_def Let_def)

lemma len_deque_append:
  "len d \<le> maxlen d \<Longrightarrow> len (deque_append d x) \<le> maxlen d"
  by (auto simp: deque_append_def len_def Let_def)

lemma deque_append_no_overflow:
  "len d \<le> maxlen d \<Longrightarrow> \<not> maxlen (deque_append d x) < len (deque_append d x)"
  using len_deque_append [of d x] by simp

lemma save_dynamic_cache_window:
  assumes "window_ok c"
  shows "window_ok (snd (save_dynamic_cache ev c query answer)) \<and>
         maxlen (user_cache (snd (save_dynamic_cache ev c query answer))) =
           maxlen (user_cache c)"
  using assms deque_append_no_overflow [of "user_cache c" "dyn_key ev query"]
    len_deque_append [of "user_cache c" "dyn_key ev query"]
  by (auto simp: save_dynamic_cache_def window_ok_def Let_def split: sum.splits)

lemma run_saves_window:
  "window_ok c \<Longrightarrow>
   window_ok (run_saves ev c calls) \<and>
   maxlen (user_cache (run_saves ev c calls)) = maxlen (user_cache c)"
proof (induction calls arbitrary: c)
  case Nil
  then show ?case by simp
next
  case (Cons call calls)
  obtain query answer where call: "call = (query, answer)" by (cases call)
  from Cons.prems save_dynamic_cache_window [of c ev query answer]
  have step: "window_ok (snd (save_dynamic_cache ev c query answer))"
    "maxlen (user_cache (snd (save_dynamic_cache ev c query answer))) = maxlen (user_cache c)"
    by simp_all
  from Cons.IH [OF step(1)] step(2) show ?case
    by (simp add: call)
qed

lemma window_ok_init: "window_ok (CAGCache_init db n)"
  by (simp add: window_ok_def CAGCache_init_def deque_new_def len_def)

text \<open>
  C5. Starting from a freshly constructed cache with \<^verbatim>\<open>dynamic_cache_size\<close> \<open>N\<close> (5 when
  omitted), after any sequence of \<^verbatim>\<open>save_dynamic_cache\<close> calls the window
  \<^verbatim>\<open>user_cache\<close> holds at most \<open>N\<close> keys. The sequence is arbitrary, so this holds
  after every call of it.
\<close>

theorem window_never_exceeds_capacity:
  "len (user_cache (run_saves ev (CAGCache_init db dynamic_cache_size) calls))
     \<le> (case dynamic_cache_size of None \<Rightarrow> 5 | Some n \<Rightarrow> n)"
  using run_saves_window [OF window_ok_init, of ev db dynamic_cache_size calls]
  by (simp add: window_ok_def CAGCache_init_def deque_new_def)

lemma save_dynamic_cache_never_deletes:
  assumes "window_ok c"
  shows "dom (self_r c) \<subseteq> dom (self_r (snd (save_dynamic_cache ev c query answer)))"
  using assms deque_append_no_overflow [of "user_cache c" "dyn_key ev query"]
  by (auto simp: save_dynamic_cache_def window_ok_def Let_def redis_hset_def
      split: sum.splits option.splits)

lemma digits_example [simp]:
  "digits 97 = [9, 7]" "digits 98 = [9, 8]" "digits 99 = [9, 9]"
  "digits 100 = [1, 0, 0]" "digits 101 = [1, 0, 1]" "digits 102 = [1, 0, 2]"
  "digits 209 = [2, 0, 9]"
  by (simp_all add: digits.simps)

lemmas save_eval =
  save_dynamic_cache_def Let_def example_env_def CAGCache_init_def CAGRAGChain_init_def
  deque_new_def deque_append_def len_def redis_hset_def dyn_key_def str_of_nat_def ascii_def

text \<open>
  C1, evaluated on the code. Six calls of \<^verbatim>\<open>save_dynamic_cache\<close> with six different
  keys on a fresh cache of the default size 5: the window holds the five most recent
  keys, and the key of the first call, which has left the window, is still stored in
  Redis with its answer. The \<^verbatim>\<open>deque\<close> has already discarded the oldest key inside
  \<^verbatim>\<open>append\<close>, so the test \<^verbatim>\<open>len(self.user_cache) > self.user_cache.maxlen\<close> is never
  true and \<^verbatim>\<open>self.r.delete\<close> is never reached.
\<close>

theorem evicted_key_stays_in_redis:
  "items (user_cache (run_saves (example_env (Inr []) (Inr []) (Inr []))
       (CAGCache_init Map.empty None)
       [(ascii ''a'', ascii ''A''), (ascii ''b'', ascii ''B''), (ascii ''c'', ascii ''C''),
        (ascii ''d'', ascii ''D''), (ascii ''e'', ascii ''E''), (ascii ''f'', ascii ''F'')])) =
     [ascii ''cache:dyn:98'', ascii ''cache:dyn:99'', ascii ''cache:dyn:100'',
      ascii ''cache:dyn:101'', ascii ''cache:dyn:102''] \<and>
   self_r (run_saves (example_env (Inr []) (Inr []) (Inr []))
       (CAGCache_init Map.empty None)
       [(ascii ''a'', ascii ''A''), (ascii ''b'', ascii ''B''), (ascii ''c'', ascii ''C''),
        (ascii ''d'', ascii ''D''), (ascii ''e'', ascii ''E''), (ascii ''f'', ascii ''F'')])
     (ascii ''cache:dyn:97'') =
     Some \<lparr>embedding = ascii ''a'', text_field = ascii ''A'',
           source_field = ascii ''dynamic_cache''\<rparr>"
  by (simp add: save_eval)


section \<open>The chain\<close>

lemma check_cache_search_result:
  assumes "encode ev q = Inr v"
    and "ft_search ev (self_r c) v (case k_arg of None \<Rightarrow> 3 | Some k \<Rightarrow> k) = Inr (d # ds)"
  shows "check_cache ev c q k_arg threshold_arg =
           (if (case threshold_arg of None \<Rightarrow> 0.7 | Some t \<Rightarrow> t) \<le> 1 - score d
            then Inr (Some (doc_text d)) else Inr None)"
  using assms by (simp add: check_cache_def Let_def)

lemma invoke_empty_question:
  assumes "inputs (ascii ''question'') = None \<or> inputs (ascii ''question'') = Some []"
  shows "invoke ev ch inputs =
           (Inr \<lparr>res_answer = empty_question_answer, cache_hit = False, res_source = ascii ''NONE''\<rparr>, ch)"
  using assms by (auto simp: invoke_def)

lemma invoke_lookup:
  assumes "inputs (ascii ''question'') = Some q" and "q \<noteq> []"
    and "check_cache ev (cag ch) q None (Some (cache_threshold ch)) = Inr r"
  shows "invoke ev ch inputs =
           (if truthy r
            then (Inr \<lparr>res_answer = the r, cache_hit = True, res_source = ascii ''CAG''\<rparr>, ch)
            else rag_pipeline ev ch q)"
  using assms by (simp add: invoke_def)

lemma rag_pipeline_no_hit:
  "\<not> (\<exists>res. fst (rag_pipeline ev ch q) = Inr res \<and> cache_hit res)"
  by (auto simp: rag_pipeline_def Let_def split: prod.splits option.splits)

lemma retrieve_documents_empty:
  assumes "es_search ev q 3 = Inl e \<or> es_search ev q 3 = Inr []"
  shows "retrieve_documents ev q None = []"
  using assms by (auto simp: retrieve_documents_def)

lemma rag_pipeline_no_documents:
  assumes "retrieve_documents ev q None = []"
  shows "rag_pipeline ev ch q =
           (Inr \<lparr>res_answer = no_documents_answer, cache_hit = False, res_source = ascii ''NONE''\<rparr>, ch)"
  using assms by (simp add: rag_pipeline_def)

lemma startswith_cross_mark_append [simp]:
  "startswith (other_error_prefix @ msg) cross_mark"
  "startswith connection_error_answer cross_mark"
  "startswith timeout_error_answer cross_mark"
  by (simp_all add: startswith_def cross_mark_def other_error_prefix_def
      connection_error_answer_def timeout_error_answer_def)




text \<open>
  C6. Once the query is embedded, if the vector search raises or returns no document,
  \<^verbatim>\<open>check_cache\<close> returns \<^verbatim>\<open>None\<close>, whatever \<^verbatim>\<open>k\<close> and \<^verbatim>\<open>threshold\<close> are: the
  result is a value, not an exception. (The embedding is computed before the \<^verbatim>\<open>try\<close>;
  the search is only reached when it succeeded.)
\<close>

theorem check_cache_degrades_to_miss:
  assumes "encode ev q = Inr v"
    and "ft_search ev (self_r c) v (case k_arg of None \<Rightarrow> 3 | Some k \<Rightarrow> k) = Inl e \<or>
         ft_search ev (self_r c) v (case k_arg of None \<Rightarrow> 3 | Some k \<Rightarrow> k) = Inr []"
  shows "check_cache ev c q k_arg threshold_arg = Inr None"
  using assms by (auto simp: check_cache_def Let_def)

text \<open>
  C7. An invocation with a non-empty question whose cache lookup returned a falsy
  value reaches the retrieval; if the retrieval raises or finds no hit, the chain
  returns the fixed message with \<^verbatim>\<open>cache_hit = False\<close> and \<^verbatim>\<open>source = NONE\<close>, and the
  chain object (index and window) is unchanged.
\<close>

theorem no_documents_outcome:
  assumes "inputs (ascii ''question'') = Some q" and "q \<noteq> []"
    and "check_cache ev (cag ch) q None (Some (cache_threshold ch)) = Inr r" and "\<not> truthy r"
    and "es_search ev q 3 = Inl e \<or> es_search ev q 3 = Inr []"
  shows "invoke ev ch inputs =
           (Inr \<lparr>res_answer = no_documents_answer, cache_hit = False, res_source = ascii ''NONE''\<rparr>, ch)"
  using invoke_lookup [of inputs q ev ch r] assms(1-4)
    rag_pipeline_no_documents [OF retrieve_documents_empty [OF assms(5)]]
  by simp

lemma rag_pipeline_steps:
  "rag_pipeline ev ch q =
     (if retrieve_documents ev q None = []
      then (Inr \<lparr>res_answer = no_documents_answer, cache_hit = False,
                 res_source = ascii ''NONE''\<rparr>, ch)
      else if startswith (generate_answer ev q (retrieve_documents ev q None)) cross_mark
           then (Inr \<lparr>res_answer = generate_answer ev q (retrieve_documents ev q None),
                      cache_hit = False, res_source = ascii ''RAG''\<rparr>, ch)
           else (case save_dynamic_cache ev (cag ch) q
                        (generate_answer ev q (retrieve_documents ev q None)) of
                   (Some x, c') \<Rightarrow> (Inl x, ch\<lparr>cag := c'\<rparr>)
                 | (None, c') \<Rightarrow>
                     (Inr \<lparr>res_answer = generate_answer ev q (retrieve_documents ev q None),
                           cache_hit = False, res_source = ascii ''RAG''\<rparr>, ch\<lparr>cag := c'\<rparr>)))"
  by (simp add: rag_pipeline_def Let_def)

lemma retrieve_documents_ft_search [simp]:
  "retrieve_documents (ev\<lparr>ft_search := f\<rparr>) q top_k = retrieve_documents ev q top_k"
  by (simp add: retrieve_documents_def)

lemma generate_answer_ft_search [simp]:
  "generate_answer (ev\<lparr>ft_search := f\<rparr>) q context = generate_answer ev q context"
  by (simp add: generate_answer_def Let_def split: sum.splits)

lemma redis_write_ft_search [simp]:
  "redis_hset (ev\<lparr>ft_search := f\<rparr>) db key e = redis_hset ev db key e"
  "redis_delete (ev\<lparr>ft_search := f\<rparr>) db key = redis_delete ev db key"
  "dyn_key (ev\<lparr>ft_search := f\<rparr>) q = dyn_key ev q"
  by (simp_all add: redis_hset_def redis_delete_def dyn_key_def)

lemma save_dynamic_cache_ft_search [simp]:
  "save_dynamic_cache (ev\<lparr>ft_search := f\<rparr>) c q a = save_dynamic_cache ev c q a"
  by (simp add: save_dynamic_cache_def Let_def split: sum.splits prod.splits)

lemma rag_pipeline_ft_search:
  "rag_pipeline (ev\<lparr>ft_search := f\<rparr>) ch q = rag_pipeline ev ch q"
  by (simp add: rag_pipeline_def Let_def)

lemma invoke_empty_search:
  assumes "inputs (ascii ''question'') = Some q" and "q \<noteq> []" and "encode ev q = Inr v"
  shows "invoke (ev\<lparr>ft_search := (\<lambda>db vec k. Inr [])\<rparr>) ch inputs = rag_pipeline ev ch q"
  using assms by (simp add: invoke_def check_cache_def rag_pipeline_ft_search)

text \<open>
  C10. (1) When the nearest entry passes the threshold but its stored text is the
  empty string, \<^verbatim>\<open>check_cache\<close> returns that empty string and \<^verbatim>\<open>invoke\<close> goes on as
  after a miss: it calls the retrieval; with no context it returns the no-documents
  answer with \<^verbatim>\<open>source = NONE\<close>; otherwise it generates, and returns the generated
  answer with \<^verbatim>\<open>cache_hit = False\<close> and \<^verbatim>\<open>source = RAG\<close>, written back through
  \<^verbatim>\<open>save_dynamic_cache\<close> unless it starts with the cross mark. The outcome is the one of
  the same invocation with a search that finds nothing, and it is never the hit result
  with the empty text. (2) When the question is missing or empty, \<^verbatim>\<open>invoke\<close> returns
  the fixed prompt with \<^verbatim>\<open>cache_hit = False\<close> and \<^verbatim>\<open>source = NONE\<close>, for every
  environment, and leaves the chain object unchanged.
\<close>

theorem falsy_lookup_and_empty_question:
  "(inputs (ascii ''question'') = Some q \<and> q \<noteq> [] \<and> encode ev q = Inr v \<and>
    ft_search ev (self_r (cag ch)) v 3 = Inr (d # ds) \<and> doc_text d = [] \<and>
    cache_threshold ch \<le> 1 - score d \<longrightarrow>
      check_cache ev (cag ch) q None (Some (cache_threshold ch)) = Inr (Some []) \<and>
      invoke ev ch inputs =
        (if retrieve_documents ev q None = []
         then (Inr \<lparr>res_answer = no_documents_answer, cache_hit = False,
                    res_source = ascii ''NONE''\<rparr>, ch)
         else if startswith (generate_answer ev q (retrieve_documents ev q None)) cross_mark
              then (Inr \<lparr>res_answer = generate_answer ev q (retrieve_documents ev q None),
                         cache_hit = False, res_source = ascii ''RAG''\<rparr>, ch)
              else (case save_dynamic_cache ev (cag ch) q
                           (generate_answer ev q (retrieve_documents ev q None)) of
                      (Some x, c') \<Rightarrow> (Inl x, ch\<lparr>cag := c'\<rparr>)
                    | (None, c') \<Rightarrow>
                        (Inr \<lparr>res_answer = generate_answer ev q (retrieve_documents ev q None),
                              cache_hit = False, res_source = ascii ''RAG''\<rparr>,
                         ch\<lparr>cag := c'\<rparr>))) \<and>
      invoke ev ch inputs = invoke (ev\<lparr>ft_search := (\<lambda>db vec k. Inr [])\<rparr>) ch inputs \<and>
      fst (invoke ev ch inputs) \<noteq>
        Inr \<lparr>res_answer = [], cache_hit = True, res_source = ascii ''CAG''\<rparr>) \<and>
   (inputs (ascii ''question'') = None \<or> inputs (ascii ''question'') = Some [] \<longrightarrow>
      invoke ev ch inputs =
        (Inr \<lparr>res_answer = empty_question_answer, cache_hit = False, res_source = ascii ''NONE''\<rparr>, ch))"
proof (intro conjI impI)
  assume a: "inputs (ascii ''question'') = Some q \<and> q \<noteq> [] \<and> encode ev q = Inr v \<and>
    ft_search ev (self_r (cag ch)) v 3 = Inr (d # ds) \<and> doc_text d = [] \<and>
    cache_threshold ch \<le> 1 - score d"
  then show cc: "check_cache ev (cag ch) q None (Some (cache_threshold ch)) = Inr (Some [])"
    using check_cache_search_result [of ev q v "cag ch" None d ds "Some (cache_threshold ch)"]
    by simp
  from a cc invoke_lookup [of inputs q ev ch "Some []"]
  have miss: "invoke ev ch inputs = rag_pipeline ev ch q" by simp
  show "invoke ev ch inputs =
        (if retrieve_documents ev q None = []
         then (Inr \<lparr>res_answer = no_documents_answer, cache_hit = False,
                    res_source = ascii ''NONE''\<rparr>, ch)
         else if startswith (generate_answer ev q (retrieve_documents ev q None)) cross_mark
              then (Inr \<lparr>res_answer = generate_answer ev q (retrieve_documents ev q None),
                         cache_hit = False, res_source = ascii ''RAG''\<rparr>, ch)
              else (case save_dynamic_cache ev (cag ch) q
                           (generate_answer ev q (retrieve_documents ev q None)) of
                      (Some x, c') \<Rightarrow> (Inl x, ch\<lparr>cag := c'\<rparr>)
                    | (None, c') \<Rightarrow>
                        (Inr \<lparr>res_answer = generate_answer ev q (retrieve_documents ev q None),
                              cache_hit = False, res_source = ascii ''RAG''\<rparr>,
                         ch\<lparr>cag := c'\<rparr>)))"
    unfolding miss by (rule rag_pipeline_steps)
  from a have "invoke (ev\<lparr>ft_search := (\<lambda>db vec k. Inr [])\<rparr>) ch inputs = rag_pipeline ev ch q"
    using invoke_empty_search [of inputs q ev v ch] by simp
  with miss show "invoke ev ch inputs = invoke (ev\<lparr>ft_search := (\<lambda>db vec k. Inr [])\<rparr>) ch inputs"
    by simp
  from rag_pipeline_no_hit [of ev ch q]
  show "fst (invoke ev ch inputs) \<noteq>
        Inr \<lparr>res_answer = [], cache_hit = True, res_source = ascii ''CAG''\<rparr>"
    unfolding miss by auto
next
  assume "inputs (ascii ''question'') = None \<or> inputs (ascii ''question'') = Some []"
  then show "invoke ev ch inputs =
        (Inr \<lparr>res_answer = empty_question_answer, cache_hit = False, res_source = ascii ''NONE''\<rparr>, ch)"
    by (rule invoke_empty_question)
qed

text \<open>
  C2, amended. For a non-empty question whose nearest entry has similarity
  \<open>1 - score\<close> at least the threshold of the chain, \<^verbatim>\<open>check_cache\<close> returns the text of
  that entry exactly; if that text is not empty, the chain returns it with
  \<^verbatim>\<open>cache_hit = True\<close> and \<^verbatim>\<open>source = CAG\<close> and the chain object (index and window)
  is unchanged.
\<close>

theorem cache_hit_returns_cached_text:
  assumes "inputs (ascii ''question'') = Some q" and "q \<noteq> []"
    and "encode ev q = Inr v"
    and "ft_search ev (self_r (cag ch)) v 3 = Inr (d # ds)"
    and "cache_threshold ch \<le> 1 - score d"
  shows "check_cache ev (cag ch) q None (Some (cache_threshold ch)) = Inr (Some (doc_text d)) \<and>
         (doc_text d \<noteq> [] \<longrightarrow>
            invoke ev ch inputs =
              (Inr \<lparr>res_answer = doc_text d, cache_hit = True, res_source = ascii ''CAG''\<rparr>, ch))"
proof -
  have cc: "check_cache ev (cag ch) q None (Some (cache_threshold ch)) = Inr (Some (doc_text d))"
    using check_cache_search_result [of ev q v "cag ch" None d ds "Some (cache_threshold ch)"] assms
    by simp
  from invoke_lookup [of inputs q ev ch "Some (doc_text d)"] assms(1,2) cc show ?thesis by simp
qed

text \<open>
  C4. \<^verbatim>\<open>check_cache\<close> without a threshold behaves as with 0.7; a chain built without a
  threshold has \<^verbatim>\<open>cache_threshold\<close> 0.85 and looks the cache up with it: for a
  non-empty question whose nearest entry has a non-empty text, the bare call hits from
  similarity 0.7 on, while the chain returns the cached text (verbatim, with
  \<^verbatim>\<open>cache_hit = True\<close>, \<^verbatim>\<open>source = CAG\<close> and the chain object unchanged) exactly when the
  similarity is at least 0.85.
\<close>

theorem default_thresholds_differ:
  "check_cache ev c q k_arg None = check_cache ev c q k_arg (Some 0.7) \<and>
   cache_threshold (CAGRAGChain_init db None) = 0.85 \<and>
   (inputs (ascii ''question'') = Some q \<and> q \<noteq> [] \<and> encode ev q = Inr v \<and>
    ft_search ev db v 3 = Inr (d # ds) \<and> doc_text d \<noteq> [] \<longrightarrow>
      (0.7 \<le> 1 - score d \<longrightarrow>
         check_cache ev (cag (CAGRAGChain_init db None)) q None None = Inr (Some (doc_text d))) \<and>
      ((invoke ev (CAGRAGChain_init db None) inputs =
          (Inr \<lparr>res_answer = doc_text d, cache_hit = True, res_source = ascii ''CAG''\<rparr>,
           CAGRAGChain_init db None))
       \<longleftrightarrow> 0.85 \<le> 1 - score d))"
proof (intro conjI impI)
  show "check_cache ev c q k_arg None = check_cache ev c q k_arg (Some 0.7)"
    by (simp add: check_cache_def)
  show thr: "cache_threshold (CAGRAGChain_init db None) = 0.85"
    by (simp add: CAGRAGChain_init_def)
  have db: "self_r (cag (CAGRAGChain_init db None)) = db"
    by (simp add: CAGRAGChain_init_def CAGCache_init_def)
  assume a: "inputs (ascii ''question'') = Some q \<and> q \<noteq> [] \<and> encode ev q = Inr v \<and>
    ft_search ev db v 3 = Inr (d # ds) \<and> doc_text d \<noteq> []"
  {
    assume "0.7 \<le> 1 - score d"
    with a db show "check_cache ev (cag (CAGRAGChain_init db None)) q None None = Inr (Some (doc_text d))"
      using check_cache_search_result [of ev q v "cag (CAGRAGChain_init db None)" None d ds None]
      by simp
  }
  let ?ch = "CAGRAGChain_init db None"
  have cc: "check_cache ev (cag ?ch) q None (Some (cache_threshold ?ch)) =
              (if cache_threshold ?ch \<le> 1 - score d then Inr (Some (doc_text d)) else Inr None)"
    using check_cache_search_result [of ev q v "cag ?ch" None d ds "Some (cache_threshold ?ch)"] a db
    by simp
  have hit_iff: "(invoke ev ?ch inputs =
          (Inr \<lparr>res_answer = doc_text d, cache_hit = True, res_source = ascii ''CAG''\<rparr>, ?ch))
       \<longleftrightarrow> cache_threshold ?ch \<le> 1 - score d"
  proof (cases "cache_threshold ?ch \<le> 1 - score d")
    case True
    with cc have "check_cache ev (cag ?ch) q None (Some (cache_threshold ?ch)) = Inr (Some (doc_text d))"
      by simp
    from invoke_lookup [of inputs q ev ?ch "Some (doc_text d)"] this a True show ?thesis by simp
  next
    case False
    with cc have "check_cache ev (cag ?ch) q None (Some (cache_threshold ?ch)) = Inr None"
      by simp
    from invoke_lookup [of inputs q ev ?ch None] this a
    have "invoke ev ?ch inputs = rag_pipeline ev ?ch q" by simp
    with rag_pipeline_no_hit [of ev ?ch q] False show ?thesis by auto
  qed
  show "(invoke ev ?ch inputs =
          (Inr \<lparr>res_answer = doc_text d, cache_hit = True, res_source = ascii ''CAG''\<rparr>, ?ch))
       \<longleftrightarrow> 0.85 \<le> 1 - score d"
    using hit_iff by (simp only: thr)
qed



text \<open>The search finds nothing for the query \<^verbatim>\<open>hi\<close>.\<close>

theorem check_cache_degrades_to_miss_witness:
  "encode (example_env (Inr []) (Inr []) (Inr [])) (ascii ''hi'') = Inr (ascii ''hi'') \<and>
   ft_search (example_env (Inr []) (Inr []) (Inr [])) (self_r (CAGCache_init Map.empty None))
     (ascii ''hi'') 3 = Inr [] \<and>
   check_cache (example_env (Inr []) (Inr []) (Inr [])) (CAGCache_init Map.empty None)
     (ascii ''hi'') None None = Inr None"
  using check_cache_degrades_to_miss [of "example_env (Inr []) (Inr []) (Inr [])" "ascii ''hi''" "ascii ''hi''"
      "CAGCache_init Map.empty None" None undefined None]
  by (simp add: example_env_def)

text \<open>The query \<^verbatim>\<open>hi\<close> on an empty cache and an empty document index.\<close>

theorem no_documents_outcome_witness:
  "example_inputs (ascii ''hi'') (ascii ''question'') = Some (ascii ''hi'') \<and>
   ascii ''hi'' \<noteq> [] \<and>
   check_cache (example_env (Inr []) (Inr []) (Inr [])) (cag (CAGRAGChain_init Map.empty None))
     (ascii ''hi'') None (Some (cache_threshold (CAGRAGChain_init Map.empty None))) = Inr None \<and>
   \<not> truthy None \<and>
   es_search (example_env (Inr []) (Inr []) (Inr [])) (ascii ''hi'') 3 = Inr [] \<and>
   invoke (example_env (Inr []) (Inr []) (Inr [])) (CAGRAGChain_init Map.empty None)
     (example_inputs (ascii ''hi'')) =
     (Inr \<lparr>res_answer = no_documents_answer, cache_hit = False, res_source = ascii ''NONE''\<rparr>,
      CAGRAGChain_init Map.empty None)"
  using no_documents_outcome [of "example_inputs (ascii ''hi'')" "ascii ''hi''"
      "example_env (Inr []) (Inr []) (Inr [])" "CAGRAGChain_init Map.empty None" None undefined]
  by (simp add: example_env_def example_inputs_def check_cache_def ascii_def)

text \<open>The query \<^verbatim>\<open>hi\<close> with a nearest entry of empty text at distance 0: with one
  document retrieved the chain answers \<^verbatim>\<open>fresh\<close> from the generator and writes it back;
  with no document it gives the no-documents answer. Then the empty question.\<close>

theorem falsy_lookup_and_empty_question_witness:
  "example_inputs (ascii ''hi'') (ascii ''question'') = Some (ascii ''hi'') \<and>
   ascii ''hi'' \<noteq> [] \<and>
   encode (example_env (Inr [example_doc [] 0]) (Inr [example_hit]) (Inr (ascii ''fresh'')))
     (ascii ''hi'') = Inr (ascii ''hi'') \<and>
   ft_search (example_env (Inr [example_doc [] 0]) (Inr [example_hit]) (Inr (ascii ''fresh'')))
     (self_r (cag (CAGRAGChain_init Map.empty None))) (ascii ''hi'') 3 = Inr [example_doc [] 0] \<and>
   doc_text (example_doc [] 0) = [] \<and>
   cache_threshold (CAGRAGChain_init Map.empty None) \<le> 1 - score (example_doc [] 0) \<and>
   check_cache (example_env (Inr [example_doc [] 0]) (Inr [example_hit]) (Inr (ascii ''fresh'')))
     (cag (CAGRAGChain_init Map.empty None)) (ascii ''hi'') None
     (Some (cache_threshold (CAGRAGChain_init Map.empty None))) = Inr (Some []) \<and>
   retrieve_documents
     (example_env (Inr [example_doc [] 0]) (Inr [example_hit]) (Inr (ascii ''fresh'')))
     (ascii ''hi'') None \<noteq> [] \<and>
   fst (invoke (example_env (Inr [example_doc [] 0]) (Inr [example_hit]) (Inr (ascii ''fresh'')))
     (CAGRAGChain_init Map.empty None) (example_inputs (ascii ''hi''))) =
     Inr \<lparr>res_answer = ascii ''fresh'', cache_hit = False, res_source = ascii ''RAG''\<rparr> \<and>
   items (user_cache (cag (snd (invoke
     (example_env (Inr [example_doc [] 0]) (Inr [example_hit]) (Inr (ascii ''fresh'')))
     (CAGRAGChain_init Map.empty None) (example_inputs (ascii ''hi'')))))) =
     [ascii ''cache:dyn:209''] \<and>
   invoke (example_env (Inr [example_doc [] 0]) (Inr []) (Inr (ascii ''fresh'')))
     (CAGRAGChain_init Map.empty None) (example_inputs (ascii ''hi'')) =
     (Inr \<lparr>res_answer = no_documents_answer, cache_hit = False, res_source = ascii ''NONE''\<rparr>,
      CAGRAGChain_init Map.empty None) \<and>
   example_inputs [] (ascii ''question'') = Some [] \<and>
   invoke (example_env (Inr [example_doc [] 0]) (Inr [example_hit]) (Inr (ascii ''fresh'')))
     (CAGRAGChain_init Map.empty None) (example_inputs []) =
     (Inr \<lparr>res_answer = empty_question_answer, cache_hit = False, res_source = ascii ''NONE''\<rparr>,
      CAGRAGChain_init Map.empty None)"
proof -
  let ?d = "example_doc [] 0"
  let ?A = "example_env (Inr [?d]) (Inr [example_hit]) (Inr (ascii ''fresh''))"
  let ?B = "example_env (Inr [?d]) (Inr []) (Inr (ascii ''fresh''))"
  let ?ch = "CAGRAGChain_init Map.empty None"
  let ?hi = "ascii ''hi''"
  have hypA: "example_inputs ?hi (ascii ''question'') = Some ?hi \<and> ?hi \<noteq> [] \<and>
      encode ?A ?hi = Inr ?hi \<and> ft_search ?A (self_r (cag ?ch)) ?hi 3 = Inr [?d] \<and>
      doc_text ?d = [] \<and> cache_threshold ?ch \<le> 1 - score ?d"
    by (simp add: example_env_def example_inputs_def example_doc_def ascii_def
        CAGRAGChain_init_def)
  have hypB: "example_inputs ?hi (ascii ''question'') = Some ?hi \<and> ?hi \<noteq> [] \<and>
      encode ?B ?hi = Inr ?hi \<and> ft_search ?B (self_r (cag ?ch)) ?hi 3 = Inr [?d] \<and>
      doc_text ?d = [] \<and> cache_threshold ?ch \<le> 1 - score ?d"
    by (simp add: example_env_def example_inputs_def example_doc_def ascii_def
        CAGRAGChain_init_def)
  have hypE: "example_inputs [] (ascii ''question'') = None \<or>
      example_inputs [] (ascii ''question'') = Some []"
    by (simp add: example_inputs_def)
  note instA = falsy_lookup_and_empty_question [of "example_inputs ?hi" ?hi ?A ?hi ?ch ?d "[]",
      THEN conjunct1, THEN mp, OF hypA]
  note instB = falsy_lookup_and_empty_question [of "example_inputs ?hi" ?hi ?B ?hi ?ch ?d "[]",
      THEN conjunct1, THEN mp, OF hypB]
  note instE = falsy_lookup_and_empty_question [of "example_inputs []" ?hi ?A ?hi ?ch ?d "[]",
      THEN conjunct2, THEN mp, OF hypE]
  have lookup: "check_cache ?A (cag ?ch) ?hi None (Some (cache_threshold ?ch)) = Inr (Some [])"
    using instA by (rule conjunct1)
  have found: "retrieve_documents ?A ?hi None \<noteq> []"
    by (simp add: retrieve_documents_def example_env_def)
  have fresh: "generate_answer ?A ?hi (retrieve_documents ?A ?hi None) = ascii ''fresh''"
    by (simp add: generate_answer_def example_env_def strip_def py_isspace_def ascii_def)
  have no_cross: "\<not> startswith (ascii ''fresh'') cross_mark"
    by (simp add: startswith_def cross_mark_def ascii_def)
  have saved: "save_dynamic_cache ?A (cag ?ch) ?hi (ascii ''fresh'') =
      (None, \<lparr>self_r = [ascii ''cache:dyn:209'' \<mapsto>
                 \<lparr>embedding = ?hi, text_field = ascii ''fresh'',
                  source_field = ascii ''dynamic_cache''\<rparr>],
              user_cache = \<lparr>items = [ascii ''cache:dyn:209''], maxlen = 5\<rparr>\<rparr>)"
    by (simp add: save_eval)
  have stepsA: "invoke ?A ?ch (example_inputs ?hi) =
      (Inr \<lparr>res_answer = ascii ''fresh'', cache_hit = False, res_source = ascii ''RAG''\<rparr>,
       ?ch\<lparr>cag := \<lparr>self_r = [ascii ''cache:dyn:209'' \<mapsto>
                 \<lparr>embedding = ?hi, text_field = ascii ''fresh'',
                  source_field = ascii ''dynamic_cache''\<rparr>],
              user_cache = \<lparr>items = [ascii ''cache:dyn:209''], maxlen = 5\<rparr>\<rparr>\<rparr>)"
    using instA [THEN conjunct2, THEN conjunct1] found no_cross
    by (simp add: fresh saved)
  have outA: "fst (invoke ?A ?ch (example_inputs ?hi)) =
      Inr \<lparr>res_answer = ascii ''fresh'', cache_hit = False, res_source = ascii ''RAG''\<rparr>"
    and winA: "items (user_cache (cag (snd (invoke ?A ?ch (example_inputs ?hi))))) =
      [ascii ''cache:dyn:209'']"
    by (simp_all add: stepsA)
  have none: "retrieve_documents ?B ?hi None = []"
    by (simp add: retrieve_documents_def example_env_def)
  have outB: "invoke ?B ?ch (example_inputs ?hi) =
      (Inr \<lparr>res_answer = no_documents_answer, cache_hit = False, res_source = ascii ''NONE''\<rparr>,
       ?ch)"
    using instB [THEN conjunct2, THEN conjunct1] by (simp add: none)
  have empty: "example_inputs [] (ascii ''question'') = Some []"
    by (simp add: example_inputs_def)
  from hypA lookup found outA winA outB empty instE show ?thesis
    by (intro conjI) (simp_all only: simp_thms)
qed

text \<open>The query \<^verbatim>\<open>hi\<close> with a nearest entry at distance 0.1, similarity 0.9.\<close>

theorem cache_hit_returns_cached_text_witness:
  "example_inputs (ascii ''hi'') (ascii ''question'') = Some (ascii ''hi'') \<and>
   ascii ''hi'' \<noteq> [] \<and>
   encode (example_env (Inr [example_doc (ascii ''cached'') 0.1]) (Inr []) (Inr [])) (ascii ''hi'')
     = Inr (ascii ''hi'') \<and>
   ft_search (example_env (Inr [example_doc (ascii ''cached'') 0.1]) (Inr []) (Inr []))
     (self_r (cag (CAGRAGChain_init Map.empty None))) (ascii ''hi'') 3
     = Inr [example_doc (ascii ''cached'') 0.1] \<and>
   cache_threshold (CAGRAGChain_init Map.empty None)
     \<le> 1 - score (example_doc (ascii ''cached'') 0.1) \<and>
   doc_text (example_doc (ascii ''cached'') 0.1) \<noteq> [] \<and>
   check_cache (example_env (Inr [example_doc (ascii ''cached'') 0.1]) (Inr []) (Inr []))
     (cag (CAGRAGChain_init Map.empty None)) (ascii ''hi'') None
     (Some (cache_threshold (CAGRAGChain_init Map.empty None))) = Inr (Some (ascii ''cached'')) \<and>
   invoke (example_env (Inr [example_doc (ascii ''cached'') 0.1]) (Inr []) (Inr []))
     (CAGRAGChain_init Map.empty None) (example_inputs (ascii ''hi'')) =
     (Inr \<lparr>res_answer = ascii ''cached'', cache_hit = True, res_source = ascii ''CAG''\<rparr>,
      CAGRAGChain_init Map.empty None)"
  using cache_hit_returns_cached_text [of "example_inputs (ascii ''hi'')" "ascii ''hi''"
      "example_env (Inr [example_doc (ascii ''cached'') 0.1]) (Inr []) (Inr [])" "ascii ''hi''"
      "CAGRAGChain_init Map.empty None" "example_doc (ascii ''cached'') 0.1" "[]"]
  by (simp add: example_env_def example_inputs_def example_doc_def ascii_def
      CAGRAGChain_init_def)

text \<open>The query \<^verbatim>\<open>hi\<close> with a nearest entry at distance 0.2: similarity 0.8 is a hit
  for the bare call and a miss for the chain.\<close>

theorem default_thresholds_differ_witness:
  "example_inputs (ascii ''hi'') (ascii ''question'') = Some (ascii ''hi'') \<and>
   ascii ''hi'' \<noteq> [] \<and>
   encode (example_env (Inr [example_doc (ascii ''cached'') 0.2]) (Inr []) (Inr [])) (ascii ''hi'')
     = Inr (ascii ''hi'') \<and>
   ft_search (example_env (Inr [example_doc (ascii ''cached'') 0.2]) (Inr []) (Inr []))
     Map.empty (ascii ''hi'') 3 = Inr [example_doc (ascii ''cached'') 0.2] \<and>
   doc_text (example_doc (ascii ''cached'') 0.2) \<noteq> [] \<and>
   0.7 \<le> 1 - score (example_doc (ascii ''cached'') 0.2) \<and>
   \<not> 0.85 \<le> 1 - score (example_doc (ascii ''cached'') 0.2) \<and>
   check_cache (example_env (Inr [example_doc (ascii ''cached'') 0.2]) (Inr []) (Inr []))
     (cag (CAGRAGChain_init Map.empty None)) (ascii ''hi'') None None
     = Inr (Some (ascii ''cached'')) \<and>
   invoke (example_env (Inr [example_doc (ascii ''cached'') 0.2]) (Inr []) (Inr []))
     (CAGRAGChain_init Map.empty None) (example_inputs (ascii ''hi'')) \<noteq>
     (Inr \<lparr>res_answer = ascii ''cached'', cache_hit = True, res_source = ascii ''CAG''\<rparr>,
      CAGRAGChain_init Map.empty None)"
proof -
  let ?E = "example_env (Inr [example_doc (ascii ''cached'') 0.2]) (Inr []) (Inr [])"
  let ?d = "example_doc (ascii ''cached'') 0.2"
  have hyp: "example_inputs (ascii ''hi'') (ascii ''question'') = Some (ascii ''hi'') \<and>
     ascii ''hi'' \<noteq> [] \<and> encode ?E (ascii ''hi'') = Inr (ascii ''hi'') \<and>
     ft_search ?E Map.empty (ascii ''hi'') 3 = Inr [?d] \<and> doc_text ?d \<noteq> []"
    by (simp add: example_env_def example_inputs_def example_doc_def ascii_def)
  have lo: "0.7 \<le> 1 - score ?d" and hi: "\<not> 0.85 \<le> 1 - score ?d"
    by (simp_all add: example_doc_def)
  note both = default_thresholds_differ [of ?E "cag (CAGRAGChain_init Map.empty None)" "ascii ''hi''" None Map.empty
      "example_inputs (ascii ''hi'')" "ascii ''hi''" ?d "[]",
      THEN conjunct2, THEN conjunct2, THEN mp, OF hyp]
  from both lo have bare_hit: "check_cache ?E (cag (CAGRAGChain_init Map.empty None)) (ascii ''hi'')
      None None = Inr (Some (doc_text ?d))"
    by blast
  from both hi have chain_miss: "invoke ?E (CAGRAGChain_init Map.empty None)
      (example_inputs (ascii ''hi'')) \<noteq>
      (Inr \<lparr>res_answer = doc_text ?d, cache_hit = True, res_source = ascii ''CAG''\<rparr>,
       CAGRAGChain_init Map.empty None)"
    by blast
  have dtext: "doc_text ?d = ascii ''cached''"
    by (simp add: example_doc_def)
  from hyp lo hi bare_hit chain_miss show ?thesis
    unfolding dtext by blast
qed


lemmas chain_eval =
  invoke_def rag_pipeline_def check_cache_def retrieve_documents_def generate_answer_def
  save_dynamic_cache_def Let_def example_env_def example_doc_def example_hit_def
  example_inputs_def timeout_exn_def CAGCache_init_def CAGRAGChain_init_def
  deque_new_def deque_append_def len_def redis_hset_def dyn_key_def str_of_nat_def ascii_def
  startswith_def cross_mark_def strip_def py_isspace_def other_error_prefix_def

text \<open>
  The claim as stated fails at two inputs. With the empty question the chain returns
  the prompt for input and never looks the cache up, although the nearest entry of
  that query is at similarity 1. With the question \<^verbatim>\<open>hi\<close> and a nearest entry at
  similarity 1 whose stored text is empty, the chain retrieves, generates, answers with
  \<^verbatim>\<open>cache_hit = False\<close> and \<^verbatim>\<open>source = RAG\<close>, and writes the new answer back.
\<close>

theorem cache_hit_counterexample:
  "encode (example_env (Inr [example_doc (ascii ''cached'') 0]) (Inr []) (Inr [])) [] = Inr [] \<and>
   ft_search (example_env (Inr [example_doc (ascii ''cached'') 0]) (Inr []) (Inr []))
     (self_r (cag (CAGRAGChain_init Map.empty None))) [] 3
     = Inr [example_doc (ascii ''cached'') 0] \<and>
   cache_threshold (CAGRAGChain_init Map.empty None) \<le> 1 - score (example_doc (ascii ''cached'') 0) \<and>
   invoke (example_env (Inr [example_doc (ascii ''cached'') 0]) (Inr []) (Inr []))
     (CAGRAGChain_init Map.empty None) (example_inputs []) =
     (Inr \<lparr>res_answer = empty_question_answer, cache_hit = False, res_source = ascii ''NONE''\<rparr>,
      CAGRAGChain_init Map.empty None) \<and>
   encode (example_env (Inr [example_doc [] 0]) (Inr [example_hit]) (Inr (ascii ''fresh'')))
     (ascii ''hi'') = Inr (ascii ''hi'') \<and>
   ft_search (example_env (Inr [example_doc [] 0]) (Inr [example_hit]) (Inr (ascii ''fresh'')))
     (self_r (cag (CAGRAGChain_init Map.empty None))) (ascii ''hi'') 3 = Inr [example_doc [] 0] \<and>
   cache_threshold (CAGRAGChain_init Map.empty None) \<le> 1 - score (example_doc [] 0) \<and>
   fst (invoke (example_env (Inr [example_doc [] 0]) (Inr [example_hit]) (Inr (ascii ''fresh'')))
     (CAGRAGChain_init Map.empty None) (example_inputs (ascii ''hi''))) =
     Inr \<lparr>res_answer = ascii ''fresh'', cache_hit = False, res_source = ascii ''RAG''\<rparr> \<and>
   items (user_cache (cag (snd (invoke
     (example_env (Inr [example_doc [] 0]) (Inr [example_hit]) (Inr (ascii ''fresh'')))
     (CAGRAGChain_init Map.empty None) (example_inputs (ascii ''hi'')))))) =
     [ascii ''cache:dyn:209'']"
  by (simp add: chain_eval)


end
